theory Spec2Isabelle
  imports Main "HOL-Library.Word" "HOL-Library.Signed_Division"
begin

section \<open>Machine integers of the Go and C sides\<close>

text \<open>
  The library is Go code over cgo. A C \<open>int\<close> is 32 bits wide, Go's \<open>int64\<close>
  and \<open>time.Duration\<close> are 64 bits wide, and Go's \<open>int\<close> is 64 bits wide on the
  platforms the native engine is built for. Conversions from a C \<open>int\<close> to a Go integer
  sign-extend (\<open>scast\<close>).
\<close>

type_synonym byte = "8 word"
type_synonym cint = "32 word"
type_synonym int64 = "64 word"



section \<open>Errors\<close>

text \<open>
  Every error of the library is made by \<open>fmt.Errorf\<close>, either from a fixed message or
  from a native status code and a message (\<open>"%d: ..."\<close>).
\<close>

datatype error = Error string | StatusError cint string

section \<open>The native engine\<close>

text \<open>
  The native decoding engine is a black box. A pointer to a native object is an opaque
  address (\<open>None\<close> is \<open>nil\<close>); the set of addresses that are allocated and not yet
  freed is threaded through every operation that allocates or frees. What a native call
  returns, and what the Go code reads from native memory after it, is given to each
  operation as a record of results, so that a theorem quantifying over that record covers
  every behaviour of the engine.
\<close>

type_synonym ptr = nat

text \<open>Freeing through a pointer that may be \<open>nil\<close>: \<open>av_free(NULL)\<close> does nothing.\<close>

definition release :: "ptr option \<Rightarrow> ptr set \<Rightarrow> ptr set" where
  "release p live = (case p of None \<Rightarrow> live | Some a \<Rightarrow> live - {a})"

definition acquire :: "ptr option \<Rightarrow> ptr set \<Rightarrow> ptr set" where
  "acquire p live = (case p of None \<Rightarrow> live | Some a \<Rightarrow> insert a live)"

datatype AVMediaType =
  AVMEDIA_TYPE_UNKNOWN | AVMEDIA_TYPE_VIDEO | AVMEDIA_TYPE_AUDIO | AVMEDIA_TYPE_DATA
  | AVMEDIA_TYPE_SUBTITLE | AVMEDIA_TYPE_ATTACHMENT | AVMEDIA_TYPE_NB

record AVRational =
  num :: cint
  den :: cint

record AVCodecParameters =
  codec_type :: AVMediaType
  codec_id :: nat
  width :: cint
  height :: cint

record AVStream =
  index :: cint
  codecpar :: AVCodecParameters
  time_base :: AVRational
  duration :: int64

text \<open>The fields of a native packet that \<open>newPacket\<close> and \<open>ReadPacket\<close> read.\<close>

record AVPacket =
  stream_index :: cint
  pkt_pts :: int64
  pkt_dts :: int64
  pkt_pos :: int64
  pkt_duration :: int64
  pkt_size :: cint
  pkt_flags :: cint
  pkt_data :: "(nat \<Rightarrow> byte) option"

section \<open>Go slices\<close>

text \<open>
  A Go slice refers to a backing array. Where a claim is about which array a slice
  refers to, arrays live in a store, a slice is the address of its array, and a new
  array gets the next free address. \<open>copy\<close> writes \<open>min (len dst) (len src)\<close> elements.
  \<open>C.GoBytes\<close> builds a new Go array from \<open>n\<close> bytes of native memory.
\<close>

type_synonym 'a arrays = "'a list list"

definition go_make :: "nat \<Rightarrow> 'a \<Rightarrow> 'a arrays \<Rightarrow> nat \<times> 'a arrays" where
  "go_make n zero h = (length h, h @ [replicate n zero])"

definition go_copy :: "nat \<Rightarrow> 'a list \<Rightarrow> 'a arrays \<Rightarrow> 'a arrays" where
  "go_copy dst src h =
     h[dst := take (length (h ! dst)) (src @ drop (length src) (h ! dst))]"

definition GoBytes :: "(nat \<Rightarrow> byte) \<Rightarrow> nat \<Rightarrow> byte arrays \<Rightarrow> nat \<times> byte arrays" where
  "GoBytes mem n h = (length h, h @ [map mem [0..<n]])"

section \<open>Streams\<close>

text \<open>
  \<open>baseStream\<close> is embedded in the three stream types; its methods are defined on
  every record that extends it. The \<open>media\<close> back pointer is not a field of the model:
  the one thing read through it, the media's packet pointer, is an argument of \<open>read\<close>.
\<close>

record baseStream =
  inner :: AVStream
  params :: AVCodecParameters
  codec :: "ptr option"
  codecCtx :: "ptr option"
  frame :: "ptr option"
  filterArgs :: string
  filterCtx :: "ptr option"
  filterInPacket :: "ptr option"
  filterOutPacket :: "ptr option"
  skip :: bool
  opened :: bool

record VideoStream = baseStream +
  swsCtx :: "ptr option"
  rgbaFrame :: "ptr option"
  bufSize :: cint

record AudioStream = baseStream +
  swrCtx :: "ptr option"
  buffer :: "ptr option"
  bufferSize :: cint

text \<open>
  Modelled from the spec: the declaration of \<open>UnknownStream\<close> is not among the sources.
  The spec says that the three stream structs share an embedded base, and
  \<open>findStreams\<close> sets only fields of the base: it is a \<open>baseStream\<close> with no field
  of its own.
\<close>

type_synonym UnknownStream = baseStream

text \<open>The \<open>Stream\<close> interface holds one of the three stream types.\<close>

datatype Stream = Video VideoStream | Audio AudioStream | Unknown UnknownStream


definition baseStream_filter :: "'a baseStream_scheme \<Rightarrow> ptr option" where
  "baseStream_filter s = filterCtx s"

definition baseStream_filterIn :: "'a baseStream_scheme \<Rightarrow> ptr option" where
  "baseStream_filterIn s = filterInPacket s"

definition baseStream_filterOut :: "'a baseStream_scheme \<Rightarrow> ptr option" where
  "baseStream_filterOut s = filterOutPacket s"


fun Stream_filter :: "Stream \<Rightarrow> ptr option" where
  "Stream_filter (Video s) = baseStream_filter s"
| "Stream_filter (Audio s) = baseStream_filter s"
| "Stream_filter (Unknown s) = baseStream_filter s"

fun Stream_innerStream :: "Stream \<Rightarrow> AVStream" where
  "Stream_innerStream (Video s) = inner s"
| "Stream_innerStream (Audio s) = inner s"
| "Stream_innerStream (Unknown s) = inner s"

subsection \<open>Filters\<close>

definition baseStream_Filter :: "'a baseStream_scheme \<Rightarrow> string" where
  "baseStream_Filter s = filterArgs s"

text \<open>
  \<open>RemoveFilter\<close>: \<open>av_bsf_free\<close> and \<open>av_packet_free\<close> free the object and the
  fields are set to \<open>nil\<close>.
\<close>

definition baseStream_RemoveFilter ::
  "'a baseStream_scheme \<Rightarrow> ptr set \<Rightarrow> error option \<times> 'a baseStream_scheme \<times> ptr set" where
  "baseStream_RemoveFilter s live =
     (if filterCtx s = None then (Some (Error ''no filter applied''), s, live)
      else
        let live1 = release (filterCtx s) live;
            s1 = s\<lparr>filterCtx := None\<rparr>;
            live2 = release (filterInPacket s1) live1;
            live3 = release (filterOutPacket s1) live2;
            s2 = s1\<lparr>filterInPacket := None, filterOutPacket := None\<rparr>
        in (None, s2, live3))"

subsection \<open>Opening\<close>

text \<open>
  The results of the native calls of \<open>baseStream.open\<close>, in the order of the calls.
\<close>

record open_native =
  avcodec_alloc_context3 :: "ptr option"
  avcodec_parameters_to_context :: cint
  avcodec_open2 :: cint
  av_frame_alloc :: "ptr option"

definition baseStream_open ::
  "'n open_native_scheme \<Rightarrow> 'a baseStream_scheme \<Rightarrow> ptr set
     \<Rightarrow> error option \<times> 'a baseStream_scheme \<times> ptr set" where
  "baseStream_open nv s live =
     (let s1 = s\<lparr>codecCtx := avcodec_alloc_context3 nv\<rparr>;
          live1 = acquire (codecCtx s1) live
      in if codecCtx s1 = None
         then (Some (Error ''couldn't open a codec context''), s1, live1)
         else if sint (avcodec_parameters_to_context nv) < 0
         then (Some (StatusError (avcodec_parameters_to_context nv)
                  ''couldn't send codec parameters to the context''), s1, live1)
         else if sint (avcodec_open2 nv) < 0
         then (Some (StatusError (avcodec_open2 nv)
                  ''couldn't open the codec context''), s1, live1)
         else
           let s2 = s1\<lparr>frame := av_frame_alloc nv\<rparr>;
               live2 = acquire (frame s2) live1
           in if frame s2 = None
              then (Some (Error ''couldn't allocate a new frame''), s2, live2)
              else (None, s2\<lparr>opened := True\<rparr>, live2))"

text \<open>
  \<open>VideoStream.OpenDecode\<close>. \<open>C.int(width)\<close> keeps the low 32 bits of the Go
  \<open>int\<close>. \<open>av_frame_free(&s.rgbaFrame)\<close> frees the frame and sets the field to
  \<open>nil\<close>; \<open>buf\<close> is a local of the function. The interpolation algorithm is passed
  on to \<open>sws_getContext\<close> and read nowhere else, so it is part of the native result.
\<close>

record opendecode_native = open_native +
  rgba_av_frame_alloc :: "ptr option"
  av_image_get_buffer_size :: "cint \<Rightarrow> cint \<Rightarrow> cint"
  av_malloc :: "ptr option"
  av_image_fill_arrays :: cint
  sws_getContext :: "ptr option"

definition VideoStream_OpenDecode ::
  "opendecode_native \<Rightarrow> int64 \<Rightarrow> int64 \<Rightarrow> VideoStream \<Rightarrow> ptr set
     \<Rightarrow> error option \<times> VideoStream \<times> ptr set" where
  "VideoStream_OpenDecode nv w h s live =
     (case baseStream_open nv s live of
        (Some err, s0, live0) \<Rightarrow> (Some err, s0, live0)
      | (None, s0, live0) \<Rightarrow>
          let s1 = s0\<lparr>rgbaFrame := rgba_av_frame_alloc nv\<rparr>;
              live1 = acquire (rgbaFrame s1) live0
          in if rgbaFrame s1 = None
             then (Some (Error ''couldn't allocate a new RGBA frame''), s1, live1)
             else
               let s2 = s1\<lparr>bufSize := av_image_get_buffer_size nv (ucast w) (ucast h)\<rparr>
               in if sint (bufSize s2) < 0
                  then (Some (StatusError (bufSize s2) ''couldn't get the buffer size''),
                        s2\<lparr>rgbaFrame := None\<rparr>, release (rgbaFrame s2) live1)
                  else
                    let buf = av_malloc nv;
                        live2 = acquire buf live1
                    in if buf = None
                       then (Some (Error ''couldn't allocate an AV buffer''),
                             s2\<lparr>rgbaFrame := None\<rparr>, release (rgbaFrame s2) live2)
                       else if sint (av_image_fill_arrays nv) < 0
                       then (Some (StatusError (av_image_fill_arrays nv)
                                ''couldn't fill the image arrays''),
                             s2\<lparr>rgbaFrame := None\<rparr>,
                             release (rgbaFrame s2) (release buf live2))
                       else
                         let s3 = s2\<lparr>swsCtx := sws_getContext nv\<rparr>;
                             live3 = acquire (swsCtx s3) live2
                         in if swsCtx s3 = None
                            then (Some (Error ''couldn't create an SWS context''),
                                  s3\<lparr>rgbaFrame := None\<rparr>,
                                  release (rgbaFrame s3) (release buf live3))
                            else (None, s3, live3))"

text \<open>\<open>VideoStream.Open\<close> opens with the stream's own width and height.\<close>

definition VideoStream_Open ::
  "opendecode_native \<Rightarrow> VideoStream \<Rightarrow> ptr set
     \<Rightarrow> error option \<times> VideoStream \<times> ptr set" where
  "VideoStream_Open nv s live =
     VideoStream_OpenDecode nv (scast (width (params s))) (scast (height (params s))) s live"

text \<open>
  \<open>AudioStream.Open\<close>. \<open>swr_alloc_set_opts2\<close> stores the context it allocates in
  \<open>s.swrCtx\<close>; its return value is not looked at.
\<close>

record audio_open_native = open_native +
  swr_alloc_set_opts2 :: "ptr option"
  swr_init :: cint

definition AudioStream_Open ::
  "audio_open_native \<Rightarrow> AudioStream \<Rightarrow> ptr set
     \<Rightarrow> error option \<times> AudioStream \<times> ptr set" where
  "AudioStream_Open nv s live =
     (case baseStream_open nv s live of
        (Some err, s0, live0) \<Rightarrow> (Some err, s0, live0)
      | (None, s0, live0) \<Rightarrow>
          let s1 = s0\<lparr>swrCtx := swr_alloc_set_opts2 nv\<rparr>;
              live1 = acquire (swrCtx s1) live0
          in if swrCtx s1 = None
             then (Some (Error ''couldn't allocate an SWR context''), s1, live1)
             else if sint (swr_init nv) < 0
             then (Some (StatusError (swr_init nv)
                      ''couldn't initialize the SWR context''), s1, live1)
             else (None, s1\<lparr>buffer := None\<rparr>, live1))"

text \<open>
  The fully closed state of a stream: no decode context, no decode-target frame, and for
  the video and audio streams no conversion context and no output buffer either.
\<close>

definition base_closed :: "'a baseStream_scheme \<Rightarrow> bool" where
  "base_closed s = (codecCtx s = None \<and> frame s = None \<and> \<not> opened s)"

definition video_closed :: "VideoStream \<Rightarrow> bool" where
  "video_closed s = (base_closed s \<and> swsCtx s = None \<and> rgbaFrame s = None)"

definition audio_closed :: "AudioStream \<Rightarrow> bool" where
  "audio_closed s = (base_closed s \<and> swrCtx s = None \<and> buffer s = None)"

subsection \<open>Decoding one packet\<close>

text \<open>
  The results of the native calls of \<open>baseStream.read\<close>, and the fields of the decoded
  native frame that the callers read after it. The native try-again status
  (\<open>ErrorAgain\<close>, a constant whose declaration is not among the sources) is the first
  argument of every operation that compares with it. \<open>av_packet_unref\<close> changes
  native memory only.
\<close>

record read_native =
  avcodec_send_packet :: "ptr option \<Rightarrow> cint"
  avcodec_receive_frame :: cint
  frame_pts :: int64
  frame_coded_picture_number :: cint
  frame_display_picture_number :: cint
  frame_nb_samples :: cint

definition baseStream_read ::
  "cint \<Rightarrow> 'n read_native_scheme \<Rightarrow> ptr option \<Rightarrow> 'a baseStream_scheme
     \<Rightarrow> (bool \<times> error option) \<times> 'a baseStream_scheme" where
  "baseStream_read ErrorAgain nv media_packet s =
     (let readPacket = (if filterCtx s \<noteq> None then filterOutPacket s else media_packet);
          r = avcodec_send_packet nv readPacket
      in if sint r < 0
         then ((False, Some (StatusError r ''couldn't send the packet to the codec context'')),
               s\<lparr>skip := False\<rparr>)
         else
           let r = avcodec_receive_frame nv
           in if sint r < 0
              then (if r = ErrorAgain
                    then ((True, None), s\<lparr>skip := True\<rparr>)
                    else ((False, Some (StatusError r
                             ''couldn't receive the frame from the codec context'')),
                          s\<lparr>skip := False\<rparr>))
              else ((True, None), s\<lparr>skip := False\<rparr>))"

section \<open>Frames\<close>

text \<open>
  A frame refers to its stream; the model keeps the stream's value at the time the frame
  is made. The only thing read through it is the native time base.
\<close>

record baseFrame =
  stream :: Stream
  pts :: int64
  indexCoded :: int64
  indexDisplay :: int64


subsection \<open>Video frames\<close>

text \<open>
  \<open>image.Rect\<close> swaps coordinates that are out of order; \<open>image.NewRGBA\<close> makes a
  pixel array of \<open>4 * width * height\<close> zero bytes and panics when that length does
  not fit a Go \<open>int\<close>. \<open>None\<close> is the panic.
\<close>

record Rectangle =
  MinX :: int
  MinY :: int
  MaxX :: int
  MaxY :: int

record RGBA =
  Pix :: nat
  Stride :: int
  Rect :: Rectangle

definition image_Rect :: "int \<Rightarrow> int \<Rightarrow> int \<Rightarrow> int \<Rightarrow> Rectangle" where
  "image_Rect x0 y0 x1 y1 =
     \<lparr>MinX = min x0 x1, MinY = min y0 y1, MaxX = max x0 x1, MaxY = max y0 y1\<rparr>"

definition mul3NonNeg :: "int \<Rightarrow> int \<Rightarrow> int \<Rightarrow> int" where
  "mul3NonNeg x y z =
     (if x < 0 \<or> y < 0 \<or> z < 0 then - 1
      else if 2 ^ 64 \<le> x * y then - 1
      else if 2 ^ 64 \<le> x * y * z then - 1
      else if 2 ^ 63 \<le> x * y * z then - 1
      else x * y * z)"

definition image_NewRGBA :: "Rectangle \<Rightarrow> byte arrays \<Rightarrow> (RGBA \<times> byte arrays) option" where
  "image_NewRGBA r h =
     (let n = mul3NonNeg 4 (MaxX r - MinX r) (MaxY r - MinY r)
      in if n < 0 then None
         else let (a, h1) = go_make (nat n) 0 h
              in Some (\<lparr>Pix = a, Stride = 4 * (MaxX r - MinX r), Rect = r\<rparr>, h1))"

record VideoFrame = baseFrame +
  img :: RGBA

definition newVideoFrame ::
  "Stream \<Rightarrow> int64 \<Rightarrow> int64 \<Rightarrow> int64 \<Rightarrow> int \<Rightarrow> int \<Rightarrow> nat \<Rightarrow> byte arrays
     \<Rightarrow> (VideoFrame \<times> byte arrays) option" where
  "newVideoFrame strm p indCoded indDisplay w ht pix h =
     (case image_NewRGBA (image_Rect 0 0 w ht) h of
        None \<Rightarrow> None
      | Some (im, h1) \<Rightarrow>
          Some (\<lparr>stream = strm, pts = p, indexCoded = indCoded, indexDisplay = indDisplay,
                  img = im\<rparr>,
                go_copy (Pix im) (h1 ! pix) h1))"

text \<open>\<open>VideoFrame.Data\<close> returns the slice \<open>f.img.Pix\<close>; its bytes are read in a store.\<close>

definition VideoFrame_Data :: "VideoFrame \<Rightarrow> byte arrays \<Rightarrow> byte list" where
  "VideoFrame_Data f h = h ! Pix (img f)"

text \<open>
  \<open>VideoStream.ReadVideoFrame\<close>. \<open>sws_scale\<close> writes the converted picture to the
  native memory of the RGBA frame; \<open>rgba_data\<close> is that memory after the call.
  Reading a field through \<open>s.frame\<close>, \<open>s.codecCtx\<close> or \<open>s.rgbaFrame\<close> panics
  when the pointer is \<open>nil\<close>, and \<open>C.GoBytes\<close> panics on a negative length;
  \<open>None\<close> is the panic.
\<close>

record video_read_native = read_native +
  ctx_width :: cint
  ctx_height :: cint
  rgba_data :: "nat \<Rightarrow> byte"

definition VideoStream_ReadVideoFrame ::
  "cint \<Rightarrow> video_read_native \<Rightarrow> ptr option \<Rightarrow> VideoStream \<Rightarrow> byte arrays
     \<Rightarrow> ((VideoFrame option \<times> bool \<times> error option) \<times> VideoStream \<times> byte arrays) option"
  where
  "VideoStream_ReadVideoFrame ErrorAgain nv media_packet s h =
     (case baseStream_read ErrorAgain nv media_packet s of
        ((ok, err), s1) \<Rightarrow>
          if err \<noteq> None then Some ((None, False, err), s1, h)
          else if ok \<and> skip s1 then Some ((None, True, None), s1, h)
          else if \<not> ok then Some ((None, False, None), s1, h)
          else if frame s1 = None \<or> codecCtx s1 = None \<or> rgbaFrame s1 = None then None
          else if sint (bufSize s1) < 0 then None
          else
            let (data, h1) = GoBytes (rgba_data nv) (nat (sint (bufSize s1))) h
            in (case newVideoFrame (Video s1) (frame_pts nv)
                       (scast (frame_coded_picture_number nv))
                       (scast (frame_display_picture_number nv))
                       (sint (ctx_width nv)) (sint (ctx_height nv)) data h1 of
                  None \<Rightarrow> None
                | Some (f, h2) \<Rightarrow> Some ((Some f, True, None), s1, h2)))"

subsection \<open>Audio frames\<close>

text \<open>
  Modelled from the spec: the declaration of \<open>AudioFrame\<close> is not among the sources.
  The spec says that an AudioFrame exposes raw interleaved PCM bytes and carries the fields
  of every frame: it is a \<open>baseFrame\<close> with a byte slice.
\<close>

record AudioFrame = baseFrame +
  data :: nat

text \<open>
  Modelled from the spec: \<open>newAudioFrame\<close>, whose source file is not among the sources.
  The spec says that \<open>ReadAudioFrame\<close> copies the result out as an owned byte slice and
  constructs an AudioFrame, which exposes the raw interleaved PCM bytes: the frame keeps
  the slice it is given.
\<close>

definition newAudioFrame ::
  "Stream \<Rightarrow> int64 \<Rightarrow> int64 \<Rightarrow> int64 \<Rightarrow> nat \<Rightarrow> AudioFrame" where
  "newAudioFrame strm p indCoded indDisplay d =
     \<lparr>stream = strm, pts = p, indexCoded = indCoded, indexDisplay = indDisplay, data = d\<rparr>"

text \<open>
  Modelled from the spec: \<open>AudioFrame.Data\<close>, which exposes the frame's bytes; they are
  read in a store.
\<close>

definition AudioFrame_Data :: "AudioFrame \<Rightarrow> byte arrays \<Rightarrow> byte list" where
  "AudioFrame_Data f h = h ! data f"

text \<open>
  \<open>AudioStream.ReadAudioFrame\<close>. \<open>buffer_data\<close> is the native memory of the output
  buffer after \<open>swr_convert\<close>. Reading \<open>s.frame.nb_samples\<close> panics when
  \<open>s.frame\<close> is \<open>nil\<close>; \<open>None\<close> is the panic.
\<close>

record audio_read_native = read_native +
  av_samples_get_buffer_size :: cint
  buffer_av_malloc :: "ptr option"
  swr_convert :: cint
  buffer_data :: "nat \<Rightarrow> byte"

definition AudioStream_ReadAudioFrame ::
  "cint \<Rightarrow> audio_read_native \<Rightarrow> ptr option \<Rightarrow> AudioStream \<Rightarrow> ptr set \<Rightarrow> byte arrays
     \<Rightarrow> ((AudioFrame option \<times> bool \<times> error option) \<times> AudioStream \<times> ptr set \<times> byte arrays)
          option"
  where
  "AudioStream_ReadAudioFrame ErrorAgain nv media_packet s live h =
     (case baseStream_read ErrorAgain nv media_packet s of
        ((ok, err), s1) \<Rightarrow>
          if err \<noteq> None then Some ((None, False, err), s1, live, h)
          else if ok \<and> skip s1 then Some ((None, True, None), s1, live, h)
          else if \<not> ok then Some ((None, False, None), s1, live, h)
          else if frame s1 = None then None
          else
            let maxBufferSize = av_samples_get_buffer_size nv
            in if sint maxBufferSize < 0
               then Some ((None, False,
                      Some (StatusError maxBufferSize ''couldn't get the max buffer size'')),
                     s1, live, h)
               else
                 let (s2, live2) =
                       (if sint (bufferSize s1) < sint maxBufferSize
                        then (s1\<lparr>buffer := None\<rparr>, release (buffer s1) live)
                        else (s1, live));
                     (s3, live3) =
                       (if buffer s2 = None
                        then (s2\<lparr>buffer := buffer_av_malloc nv, bufferSize := maxBufferSize\<rparr>,
                              acquire (buffer_av_malloc nv) live2)
                        else (s2, live2))
                 in if buffer s3 = None
                    then Some ((None, False, Some (Error ''couldn't allocate an AV buffer'')),
                          s3, live3, h)
                    else
                      let gotSamples = swr_convert nv
                      in if sint gotSamples < 0
                         then Some ((None, False,
                                Some (StatusError gotSamples ''couldn't convert the audio frame'')),
                               s3, live3, h)
                         else
                           let (d, h1) = GoBytes (buffer_data nv) (nat (sint maxBufferSize)) h;
                               f = newAudioFrame (Audio s3) (frame_pts nv)
                                     (scast (frame_coded_picture_number nv))
                                     (scast (frame_display_picture_number nv)) d
                           in Some ((Some f, True, None), s3, live3, h1))"

section \<open>Packets\<close>

text \<open>
  \<open>newPacket\<close> copies the fields of the native packet; the payload is copied by
  \<open>C.GoBytes\<close> when the native packet has data, and stays \<open>nil\<close> (\<open>None\<close>)
  otherwise. No claim is about sharing of a packet's payload, so the payload is kept as
  a value. The \<open>media\<close> back pointer is not a field of the model.
\<close>

record Packet =
  streamIndex :: int64
  packet_data :: "byte list option"
  packet_pts :: int64
  dts :: int64
  pos :: int64
  packet_duration :: int64
  packet_size :: int64
  flags :: int64

definition newPacket :: "AVPacket \<Rightarrow> Packet" where
  "newPacket cPkt =
     (let pkt = \<lparr>streamIndex = scast (stream_index cPkt), packet_data = None,
                   packet_pts = pkt_pts cPkt, dts = pkt_dts cPkt, pos = pkt_pos cPkt,
                   packet_duration = pkt_duration cPkt, packet_size = scast (pkt_size cPkt),
                   flags = scast (pkt_flags cPkt)\<rparr>
      in case pkt_data cPkt of
           None \<Rightarrow> pkt
         | Some mem \<Rightarrow>
             if 0 < sint (pkt_size cPkt)
             then pkt\<lparr>packet_data := Some (map mem [0..<nat (sint (pkt_size cPkt))])\<rparr>
             else pkt)"

section \<open>Media\<close>

text \<open>
  \<open>Media.streams\<close> is a slice of \<open>Stream\<close> interface values: the address of an
  array whose elements are streams or \<open>nil\<close> (\<open>None\<close>), the zero value that
  \<open>make\<close> fills a new array with.
\<close>

record Media =
  ctx :: "ptr option"
  packet :: "ptr option"
  streams :: nat

subsection \<open>Stream discovery\<close>

text \<open>\<open>new(VideoStream)\<close> and its siblings: every field has its zero value.\<close>

definition new_baseStream :: "AVStream \<Rightarrow> AVCodecParameters \<Rightarrow> ptr option \<Rightarrow> baseStream" where
  "new_baseStream i p c =
     \<lparr>inner = i, params = p, codec = c, codecCtx = None, frame = None, filterArgs = [],
      filterCtx = None, filterInPacket = None, filterOutPacket = None, skip = False,
      opened = False\<rparr>"

definition new_VideoStream :: "AVStream \<Rightarrow> AVCodecParameters \<Rightarrow> ptr option \<Rightarrow> VideoStream" where
  "new_VideoStream i p c =
     baseStream.extend (new_baseStream i p c)
       (VideoStream.fields None None 0)"

definition new_AudioStream :: "AVStream \<Rightarrow> AVCodecParameters \<Rightarrow> ptr option \<Rightarrow> AudioStream" where
  "new_AudioStream i p c =
     baseStream.extend (new_baseStream i p c)
       (AudioStream.fields None None 0)"

text \<open>
  The native calls of \<open>findStreams\<close>: the status of the probe, the native sub-streams
  \<open>m.ctx.streams[0 .. nb_streams)\<close>, and the decoder lookup by codec id.
\<close>

record findstreams_native =
  avformat_find_stream_info :: cint
  ctx_streams :: "AVStream list"
  avcodec_find_decoder :: "nat \<Rightarrow> ptr option"

text \<open>The loop over the native sub-streams, appending to \<open>streams\<close>.\<close>

fun findStreams_loop :: "(nat \<Rightarrow> ptr option) \<Rightarrow> AVStream list \<Rightarrow> Stream list \<Rightarrow> Stream list" where
  "findStreams_loop find_decoder [] strms = strms"
| "findStreams_loop find_decoder (innerStream # rest) strms =
     (let codecParams = codecpar innerStream;
          cdc = find_decoder (codec_id codecParams)
      in if cdc = None
         then findStreams_loop find_decoder rest
                (strms @ [Unknown (new_baseStream innerStream codecParams None)])
         else (case codec_type codecParams of
                 AVMEDIA_TYPE_VIDEO \<Rightarrow>
                   findStreams_loop find_decoder rest
                     (strms @ [Video (new_VideoStream innerStream codecParams cdc)])
               | AVMEDIA_TYPE_AUDIO \<Rightarrow>
                   findStreams_loop find_decoder rest
                     (strms @ [Audio (new_AudioStream innerStream codecParams cdc)])
               | _ \<Rightarrow>
                   findStreams_loop find_decoder rest
                     (strms @ [Unknown (new_baseStream innerStream codecParams cdc)])))"

definition Media_findStreams ::
  "findstreams_native \<Rightarrow> Media \<Rightarrow> Stream option arrays
     \<Rightarrow> error option \<times> Media \<times> Stream option arrays" where
  "Media_findStreams nv m h =
     (if sint (avformat_find_stream_info nv) < 0
      then (Some (Error ''couldn't find stream information''), m, h)
      else
        let strms = findStreams_loop (avcodec_find_decoder nv) (ctx_streams nv) []
        in (None, m\<lparr>streams := length h\<rparr>, h @ [map Some strms]))"

subsection \<open>The stream list\<close>

definition Media_Streams :: "Media \<Rightarrow> 'a option arrays \<Rightarrow> nat \<times> 'a option arrays" where
  "Media_Streams m h =
     (let (strms, h1) = go_make (length (h ! streams m)) None h
      in (strms, go_copy strms (h1 ! streams m) h1))"

subsection \<open>Reading packets\<close>

text \<open>
  The native calls of \<open>ReadPacket\<close>: the status of \<open>av_read_frame\<close> and the packet
  it filled, the statuses of the three filter steps and the packet the filter returned.
  Reading \<open>m.packet.stream_index\<close> through a \<open>nil\<close> packet pointer, indexing
  \<open>m.streams\<close> out of range and calling a method of a \<open>nil\<close> interface panic;
  \<open>None\<close> is the panic.
\<close>

record readpacket_native =
  av_read_frame :: cint
  read_packet :: AVPacket
  av_packet_ref :: cint
  av_bsf_send_packet :: cint
  av_bsf_receive_packet :: cint
  filtered_packet :: AVPacket

definition Media_ReadPacket ::
  "cint \<Rightarrow> readpacket_native \<Rightarrow> Media \<Rightarrow> Stream option arrays
     \<Rightarrow> (Packet option \<times> bool \<times> error option) option" where
  "Media_ReadPacket ErrorAgain nv m h =
     (let r = av_read_frame nv
      in if sint r < 0
         then (if r = ErrorAgain then Some (None, True, None) else Some (None, False, None))
         else
           let i = sint (stream_index (read_packet nv))
           in if packet m = None then None
              else if i < 0 \<or> int (length (h ! streams m)) \<le> i then None
              else (case (h ! streams m) ! nat i of
                      None \<Rightarrow> None
                    | Some packetStream \<Rightarrow>
                        if Stream_filter packetStream \<noteq> None
                        then (if sint (av_packet_ref nv) < 0
                              then Some (None, False,
                                     Some (StatusError (av_packet_ref nv)
                                       ''couldn't reference the packet''))
                              else if sint (av_bsf_send_packet nv) < 0
                              then Some (None, False,
                                     Some (StatusError (av_bsf_send_packet nv)
                                       ''couldn't send the packet to the filter''))
                              else if sint (av_bsf_receive_packet nv) < 0
                              then Some (None, False,
                                     Some (StatusError (av_bsf_receive_packet nv)
                                       ''couldn't receive the packet from the filter''))
                              else Some (Some (newPacket (filtered_packet nv)), True, None))
                        else Some (Some (newPacket (read_packet nv)), True, None)))"

section \<open>Example inputs\<close>

text \<open>A video sub-stream with time base \<open>1/25\<close> and a frame of it with pts \<open>50\<close>.\<close>

definition example_stream :: AVStream where
  "example_stream =
     \<lparr>index = 0,
      codecpar = \<lparr>codec_type = AVMEDIA_TYPE_VIDEO, codec_id = 27, width = 640, height = 480\<rparr>,
      time_base = \<lparr>num = 1, den = 25\<rparr>, duration = 250\<rparr>"

definition example_video :: VideoStream where
  "example_video = new_VideoStream example_stream (codecpar example_stream) (Some 1)"

definition example_frame :: baseFrame where
  "example_frame = \<lparr>stream = Video example_video, pts = 50, indexCoded = 0, indexDisplay = 0\<rparr>"


text \<open>An audio sub-stream.\<close>

definition example_audio :: AudioStream where
  "example_audio =
     new_AudioStream
       (example_stream\<lparr>index := 1,
          codecpar := \<lparr>codec_type = AVMEDIA_TYPE_AUDIO, codec_id = 86018, width = 0, height = 0\<rparr>,
          time_base := \<lparr>num = 1, den = 44100\<rparr>\<rparr>)
       \<lparr>codec_type = AVMEDIA_TYPE_AUDIO, codec_id = 86018, width = 0, height = 0\<rparr> (Some 2)"

text \<open>The video stream with a bitstream filter applied.\<close>

definition filtered_video :: VideoStream where
  "filtered_video =
     example_video\<lparr>filterArgs := ''h264_mp4toannexb'', filterCtx := Some 5,
       filterInPacket := Some 6, filterOutPacket := Some 7\<rparr>"

text \<open>
  A native engine whose decode context opens, and whose allocation of the RGBA frame
  fails.
\<close>

definition rgba_alloc_fails :: opendecode_native where
  "rgba_alloc_fails =
     \<lparr>avcodec_alloc_context3 = Some 10, avcodec_parameters_to_context = 0,
      avcodec_open2 = 0, av_frame_alloc = Some 11,
      rgba_av_frame_alloc = None, av_image_get_buffer_size = (\<lambda>w h. 4 * w * h),
      av_malloc = Some 13, av_image_fill_arrays = 0, sws_getContext = Some 14\<rparr>"

text \<open>
  A decoder that takes the packet and reports try-again (\<open>-11\<close>, the negated
  \<open>EAGAIN\<close> of Linux) when asked for a frame.
\<close>

definition decoder_waits :: video_read_native where
  "decoder_waits =
     \<lparr>avcodec_send_packet = (\<lambda>p. 0), avcodec_receive_frame = - 11, frame_pts = 0,
      frame_coded_picture_number = 0, frame_display_picture_number = 0, frame_nb_samples = 0,
      ctx_width = 640, ctx_height = 480, rgba_data = (\<lambda>i. 0)\<rparr>"

definition audio_decoder_waits :: audio_read_native where
  "audio_decoder_waits =
     \<lparr>avcodec_send_packet = (\<lambda>p. 0), avcodec_receive_frame = - 11, frame_pts = 0,
      frame_coded_picture_number = 0, frame_display_picture_number = 0, frame_nb_samples = 0,
      av_samples_get_buffer_size = 4096, buffer_av_malloc = Some 20, swr_convert = 1024,
      buffer_data = (\<lambda>i. 0)\<rparr>"

text \<open>
  A media container whose stream list holds the filtered video stream and the audio
  stream, and native reads: one that fails with a given status, and one that succeeds
  for stream 0 while the filter cannot reference the packet.
\<close>

definition example_media :: Media where
  "example_media = \<lparr>ctx = Some 100, packet = Some 3, streams = 0\<rparr>"

definition example_arrays :: "Stream option arrays" where
  "example_arrays = [[Some (Video filtered_video), Some (Audio example_audio)]]"

definition blank_packet :: AVPacket where
  "blank_packet =
     \<lparr>stream_index = 0, pkt_pts = 0, pkt_dts = 0, pkt_pos = - 1, pkt_duration = 0,
      pkt_size = 0, pkt_flags = 0, pkt_data = None\<rparr>"

definition read_fails :: "cint \<Rightarrow> readpacket_native" where
  "read_fails status =
     \<lparr>av_read_frame = status, read_packet = blank_packet, av_packet_ref = 0,
      av_bsf_send_packet = 0, av_bsf_receive_packet = 0, filtered_packet = blank_packet\<rparr>"

definition filter_ref_fails :: readpacket_native where
  "filter_ref_fails =
     \<lparr>av_read_frame = 0, read_packet = blank_packet, av_packet_ref = - 12,
      av_bsf_send_packet = 0, av_bsf_receive_packet = 0, filtered_packet = blank_packet\<rparr>"

text \<open>
  A container with four sub-streams: video, audio, subtitles, and a video sub-stream whose
  codec has no decoder.
\<close>

definition four_streams :: findstreams_native where
  "four_streams =
     \<lparr>avformat_find_stream_info = 0,
      ctx_streams =
        [example_stream,
         inner example_audio,
         example_stream\<lparr>index := 2,
           codecpar := \<lparr>codec_type = AVMEDIA_TYPE_SUBTITLE, codec_id = 94213, width = 0, height = 0\<rparr>\<rparr>,
         example_stream\<lparr>index := 3,
           codecpar := \<lparr>codec_type = AVMEDIA_TYPE_VIDEO, codec_id = 999, width = 0, height = 0\<rparr>\<rparr>],
      avcodec_find_decoder = (\<lambda>cid. if cid = 999 then None else Some cid)\<rparr>"

text \<open>
  Opened streams, and native engines that decode a frame: a one-pixel picture filled with
  a given byte, and audio samples with a given required buffer size, a given result of
  the buffer allocation and a given byte in the output buffer.
\<close>

definition opened_video :: VideoStream where
  "opened_video =
     example_video\<lparr>codecCtx := Some 10, frame := Some 11, opened := True,
       swsCtx := Some 14, rgbaFrame := Some 12, bufSize := 4\<rparr>"

definition opened_audio :: AudioStream where
  "opened_audio =
     example_audio\<lparr>codecCtx := Some 30, frame := Some 31, opened := True,
       swrCtx := Some 32\<rparr>"

definition picture :: "byte \<Rightarrow> video_read_native" where
  "picture b =
     \<lparr>avcodec_send_packet = (\<lambda>p. 0), avcodec_receive_frame = 0, frame_pts = 50,
      frame_coded_picture_number = 0, frame_display_picture_number = 0, frame_nb_samples = 0,
      ctx_width = 1, ctx_height = 1, rgba_data = (\<lambda>i. b)\<rparr>"

definition samples :: "cint \<Rightarrow> ptr option \<Rightarrow> byte \<Rightarrow> audio_read_native" where
  "samples n p b =
     \<lparr>avcodec_send_packet = (\<lambda>p. 0), avcodec_receive_frame = 0, frame_pts = 50,
      frame_coded_picture_number = 0, frame_display_picture_number = 0, frame_nb_samples = 1,
      av_samples_get_buffer_size = n, buffer_av_malloc = p, swr_convert = 1,
      buffer_data = (\<lambda>i. b)\<rparr>"

text \<open>The frames that the first reads of the two streams return.\<close>

definition first_picture :: VideoFrame where
  "first_picture =
     \<lparr>stream = Video (opened_video\<lparr>skip := False\<rparr>), pts = 50, indexCoded = 0,
      indexDisplay = 0,
      img = \<lparr>Pix = 1, Stride = 4, Rect = \<lparr>MinX = 0, MinY = 0, MaxX = 1, MaxY = 1\<rparr>\<rparr>\<rparr>"

definition first_samples :: AudioFrame where
  "first_samples =
     \<lparr>stream = Audio (opened_audio\<lparr>skip := False, buffer := Some 20, bufferSize := 4\<rparr>),
      pts = 50, indexCoded = 0, indexDisplay = 0, data = 0\<rparr>"

text \<open>
  Successive reads of the audio stream: with growing and shrinking required sizes, and
  with a reallocation that fails.
\<close>

definition growing_calls :: "(audio_read_native \<times> ptr option) list" where
  "growing_calls =
     [(samples 4 (Some 20) 7, Some 3), (samples 8 (Some 21) 9, Some 3),
      (samples 4 (Some 22) 5, Some 3)]"

definition failing_calls :: "(audio_read_native \<times> ptr option) list" where
  "failing_calls =
     [(samples 8 (Some 20) 7, Some 3), (samples 16 None 9, Some 3),
      (samples 4 (Some 21) 5, Some 3)]"

section \<open>Vocabulary of the properties\<close>

text \<open>
  The time base a frame's presentation offset is computed with, and the exact integer
  \<open>10^9 * n * pts\<close> whose quotient by the denominator is the offset in nanoseconds.
\<close>

abbreviation frame_time_base :: "'a baseFrame_scheme \<Rightarrow> AVRational" where
  "frame_time_base f \<equiv> time_base (Stream_innerStream (stream f))"


text \<open>
  The packet \<open>read\<close> submits, and the condition "decoder needs more input": the
  packet was accepted and the receive step reports the try-again status.
\<close>

abbreviation read_input :: "'a baseStream_scheme \<Rightarrow> ptr option \<Rightarrow> ptr option" where
  "read_input s media_packet \<equiv>
     (if filterCtx s \<noteq> None then filterOutPacket s else media_packet)"

definition needs_more_input ::
  "cint \<Rightarrow> 'n read_native_scheme \<Rightarrow> 'a baseStream_scheme \<Rightarrow> ptr option \<Rightarrow> bool" where
  "needs_more_input ErrorAgain nv s media_packet =
     (0 \<le> sint (avcodec_send_packet nv (read_input s media_packet))
      \<and> sint (avcodec_receive_frame nv) < 0
      \<and> avcodec_receive_frame nv = ErrorAgain)"

text \<open>
  Stream classification in the words of the spec: with no decoder for the codec id the
  sub-stream is \<open>Unknown\<close>; otherwise it is \<open>Video\<close> or \<open>Audio\<close> by codec type, and
  \<open>Unknown\<close> for any other codec type. \<open>entry_classified\<close> says that an entry of the
  stream list is a stream of the kind the spec gives for a native sub-stream and wraps that
  sub-stream; \<open>classified\<close> is the stream itself, with every other field zero.
\<close>

fun is_Video :: "Stream \<Rightarrow> bool" where
  "is_Video (Video s) = True" | "is_Video _ = False"
fun is_Audio :: "Stream \<Rightarrow> bool" where
  "is_Audio (Audio s) = True" | "is_Audio _ = False"
fun is_Unknown :: "Stream \<Rightarrow> bool" where
  "is_Unknown (Unknown s) = True" | "is_Unknown _ = False"

definition entry_classified :: "(nat \<Rightarrow> ptr option) \<Rightarrow> AVStream \<Rightarrow> Stream option \<Rightarrow> bool" where
  "entry_classified find_decoder st entry =
     (case entry of
        None \<Rightarrow> False
      | Some e \<Rightarrow>
          Stream_innerStream e = st
          \<and> (find_decoder (codec_id (codecpar st)) = None \<longrightarrow> is_Unknown e)
          \<and> (find_decoder (codec_id (codecpar st)) \<noteq> None
                \<and> codec_type (codecpar st) = AVMEDIA_TYPE_VIDEO \<longrightarrow> is_Video e)
          \<and> (find_decoder (codec_id (codecpar st)) \<noteq> None
                \<and> codec_type (codecpar st) = AVMEDIA_TYPE_AUDIO \<longrightarrow> is_Audio e)
          \<and> (find_decoder (codec_id (codecpar st)) \<noteq> None
                \<and> codec_type (codecpar st) \<noteq> AVMEDIA_TYPE_VIDEO
                \<and> codec_type (codecpar st) \<noteq> AVMEDIA_TYPE_AUDIO \<longrightarrow> is_Unknown e))"

definition classified :: "(nat \<Rightarrow> ptr option) \<Rightarrow> AVStream \<Rightarrow> Stream" where
  "classified find_decoder st =
     (case find_decoder (codec_id (codecpar st)) of
        None \<Rightarrow> Unknown (new_baseStream st (codecpar st) None)
      | Some c \<Rightarrow>
          if codec_type (codecpar st) = AVMEDIA_TYPE_VIDEO
          then Video (new_VideoStream st (codecpar st) (Some c))
          else if codec_type (codecpar st) = AVMEDIA_TYPE_AUDIO
          then Audio (new_AudioStream st (codecpar st) (Some c))
          else Unknown (new_baseStream st (codecpar st) (Some c)))"

text \<open>
  The size of the audio stream's reusable output buffer: the size recorded at its
  allocation, and zero while no buffer is allocated. \<open>ReadAudioFrames\<close> is a run of
  successive \<open>ReadAudioFrame\<close> calls on one stream, each with its own native results
  and media packet, and gives the stream after each call; a panic ends the run.
  \<open>allocations_succeed\<close> says that the native allocator never returns \<open>NULL\<close> in
  the run; \<open>decodes_frame\<close> that the decoder takes the packet, yields a frame and the
  required size is not negative.
\<close>

definition held_size :: "AudioStream \<Rightarrow> int" where
  "held_size s = (case buffer s of None \<Rightarrow> 0 | Some p \<Rightarrow> sint (bufferSize s))"

fun ReadAudioFrames ::
  "cint \<Rightarrow> (audio_read_native \<times> ptr option) list \<Rightarrow> AudioStream \<Rightarrow> ptr set \<Rightarrow> byte arrays
     \<Rightarrow> AudioStream list" where
  "ReadAudioFrames ErrorAgain [] s live h = []"
| "ReadAudioFrames ErrorAgain (call # calls) s live h =
     (case AudioStream_ReadAudioFrame ErrorAgain (fst call) (snd call) s live h of
        None \<Rightarrow> []
      | Some (r, s1, live1, h1) \<Rightarrow> s1 # ReadAudioFrames ErrorAgain calls s1 live1 h1)"

definition allocations_succeed :: "(audio_read_native \<times> ptr option) list \<Rightarrow> bool" where
  "allocations_succeed calls = list_all (\<lambda>call. buffer_av_malloc (fst call) \<noteq> None) calls"

definition decodes_frame :: "audio_read_native \<Rightarrow> AudioStream \<Rightarrow> ptr option \<Rightarrow> bool" where
  "decodes_frame nv s media_packet =
     (0 \<le> sint (avcodec_send_packet nv (read_input s media_packet))
      \<and> 0 \<le> sint (avcodec_receive_frame nv)
      \<and> 0 \<le> sint (av_samples_get_buffer_size nv))"


section \<open>Presentation offset\<close>










text \<open>The example frame satisfies every hypothesis of the theorem.\<close>

lemma example_frame_time_base [simp]:
  "frame_time_base example_frame = \<lparr>num = 1, den = 25\<rparr>"
  "pts example_frame = 50"
  by (simp_all add: example_frame_def example_video_def new_VideoStream_def
      new_baseStream_def example_stream_def baseStream.extend_def)




section \<open>Opening a stream\<close>

text \<open>
  Claim C3 fails on the code. When the decode context has been opened and the allocation
  of the RGBA frame fails, \<open>OpenDecode\<close> returns its error while the decode context
  and the decode-target frame stay allocated and the stream stays marked as opened.
\<close>

theorem OpenDecode_failure_leaves_stream_open:
  "fst (VideoStream_OpenDecode rgba_alloc_fails 640 480 example_video {})
     = Some (Error ''couldn't allocate a new RGBA frame'')
   \<and> codecCtx (fst (snd (VideoStream_OpenDecode rgba_alloc_fails 640 480 example_video {})))
       = Some 10
   \<and> frame (fst (snd (VideoStream_OpenDecode rgba_alloc_fails 640 480 example_video {})))
       = Some 11
   \<and> opened (fst (snd (VideoStream_OpenDecode rgba_alloc_fails 640 480 example_video {})))
   \<and> \<not> video_closed (fst (snd (VideoStream_OpenDecode rgba_alloc_fails 640 480 example_video {})))
   \<and> snd (snd (VideoStream_OpenDecode rgba_alloc_fails 640 480 example_video {})) = {11, 10}"
  by (simp add: VideoStream_OpenDecode_def baseStream_open_def rgba_alloc_fails_def
      example_video_def new_VideoStream_def new_baseStream_def baseStream.extend_def
      VideoStream.fields_def video_closed_def base_closed_def acquire_def Let_def)

section \<open>Decoding\<close>

lemma read_try_again:
  "needs_more_input ErrorAgain nv s mp \<Longrightarrow>
     baseStream_read ErrorAgain nv mp s = ((True, None), s\<lparr>skip := True\<rparr>)"
  by (auto simp: needs_more_input_def baseStream_read_def Let_def)

text \<open>
  Claim C4. When the decoder has taken the packet and the receive step reports try-again,
  \<open>read\<close> returns \<open>(true, nil)\<close> with the skip flag set, and \<open>ReadVideoFrame\<close>
  and \<open>ReadAudioFrame\<close> return \<open>(nil, true, nil)\<close>, without an error and without
  touching the buffers. That result differs from a produced frame and from the end of the
  stream \<open>(nil, false, nil)\<close>.
\<close>

theorem ReadFrame_try_again_is_skip:
  "(needs_more_input ErrorAgain nv s mp \<longrightarrow>
      baseStream_read ErrorAgain nv mp s = ((True, None), s\<lparr>skip := True\<rparr>))
   \<and> (needs_more_input ErrorAgain vnv vs mp \<longrightarrow>
      VideoStream_ReadVideoFrame ErrorAgain vnv mp vs h
        = Some ((None, True, None), vs\<lparr>skip := True\<rparr>, h))
   \<and> (needs_more_input ErrorAgain anv as mp \<longrightarrow>
      AudioStream_ReadAudioFrame ErrorAgain anv mp as live h
        = Some ((None, True, None), as\<lparr>skip := True\<rparr>, live, h))
   \<and> (None, True, None) \<noteq> (Some (f :: 'f), True, None :: error option)
   \<and> (None :: 'f option, True, None :: error option) \<noteq> (None, False, None)"
  by (simp add: read_try_again VideoStream_ReadVideoFrame_def AudioStream_ReadAudioFrame_def)

theorem ReadFrame_try_again_is_skip_witness:
  "needs_more_input (- 11) decoder_waits example_video (Some 3)
   \<and> needs_more_input (- 11) audio_decoder_waits example_audio (Some 3)
   \<and> baseStream_read (- 11) decoder_waits (Some 3) example_video
       = ((True, None), example_video\<lparr>skip := True\<rparr>)
   \<and> VideoStream_ReadVideoFrame (- 11) decoder_waits (Some 3) example_video []
       = Some ((None, True, None), example_video\<lparr>skip := True\<rparr>, [])
   \<and> AudioStream_ReadAudioFrame (- 11) audio_decoder_waits (Some 3) example_audio {} []
       = Some ((None, True, None), example_audio\<lparr>skip := True\<rparr>, {}, [])"
  using ReadFrame_try_again_is_skip [of "- 11" decoder_waits example_video "Some 3"
      decoder_waits example_video "[]" audio_decoder_waits example_audio "{}" "()"]
  by (simp add: needs_more_input_def decoder_waits_def audio_decoder_waits_def)

section \<open>Filters\<close>

text \<open>
  Claim C6 fails on the code. \<open>RemoveFilter\<close> on a stream with an active filter
  succeeds, releases the filter context and both packets and clears the three pointers,
  but it leaves \<open>filterArgs\<close> as it was, so \<open>Filter\<close> still returns the name of the
  removed filter instead of the empty string.
\<close>

theorem RemoveFilter_keeps_filter_name:
  "baseStream_Filter (fst (snd (baseStream_RemoveFilter filtered_video {5, 6, 7})))
     = ''h264_mp4toannexb''
   \<and> fst (baseStream_RemoveFilter filtered_video {5, 6, 7}) = None
   \<and> filterCtx (fst (snd (baseStream_RemoveFilter filtered_video {5, 6, 7}))) = None
   \<and> snd (snd (baseStream_RemoveFilter filtered_video {5, 6, 7})) = {}"
  by (simp add: baseStream_RemoveFilter_def baseStream_Filter_def filtered_video_def
      release_def Let_def)

section \<open>Reading packets\<close>

text \<open>
  Claim C1 as stated fails: a native read that fails with the I/O error status \<open>-5\<close>
  (neither try-again nor end of file) returns \<open>(nil, false, nil)\<close>, with no error.
\<close>

theorem ReadPacket_io_error_counterexample:
  "Media_ReadPacket (- 11) (read_fails (- 5)) example_media example_arrays
     = Some (None, False, None)"
  by (simp add: Media_ReadPacket_def read_fails_def)

text \<open>
  Claim C1, as amended. When the native read reports try-again, \<open>ReadPacket\<close> returns
  \<open>(nil, true, nil)\<close>; when it reports any other negative status, end of stream or
  not, it returns \<open>(nil, false, nil)\<close>. An error is returned only with
  \<open>(nil, false, err)\<close>, only after a successful native read, and only when one of
  the three steps of the bitstream filter failed.
\<close>

theorem ReadPacket_tri_state:
  "(sint (av_read_frame nv) < 0 \<and> av_read_frame nv = ErrorAgain
      \<longrightarrow> Media_ReadPacket ErrorAgain nv m h = Some (None, True, None))
   \<and> (sint (av_read_frame nv) < 0 \<and> av_read_frame nv \<noteq> ErrorAgain
      \<longrightarrow> Media_ReadPacket ErrorAgain nv m h = Some (None, False, None))
   \<and> (Media_ReadPacket ErrorAgain nv m h = Some (p, avail, Some err)
      \<longrightarrow> p = None \<and> \<not> avail \<and> 0 \<le> sint (av_read_frame nv)
          \<and> (sint (av_packet_ref nv) < 0 \<or> sint (av_bsf_send_packet nv) < 0
               \<or> sint (av_bsf_receive_packet nv) < 0))"
  by (auto simp: Media_ReadPacket_def Let_def split: if_splits option.splits)

theorem ReadPacket_tri_state_witness:
  "Media_ReadPacket (- 11) (read_fails (- 11)) example_media example_arrays
     = Some (None, True, None)
   \<and> Media_ReadPacket (- 11) (read_fails (- 541478725)) example_media example_arrays
     = Some (None, False, None)
   \<and> Media_ReadPacket (- 11) filter_ref_fails example_media example_arrays
     = Some (None, False, Some (StatusError (- 12) ''couldn't reference the packet''))
   \<and> 0 \<le> sint (av_read_frame filter_ref_fails)
   \<and> sint (av_packet_ref filter_ref_fails) < 0"
proof -
  have err: "Media_ReadPacket (- 11) filter_ref_fails example_media example_arrays
     = Some (None, False, Some (StatusError (- 12) ''couldn't reference the packet''))"
    by (simp add: Media_ReadPacket_def filter_ref_fails_def blank_packet_def
        example_media_def example_arrays_def filtered_video_def baseStream_filter_def)
  show ?thesis
    using ReadPacket_tri_state [of "read_fails (- 11)" "- 11" example_media example_arrays]
      ReadPacket_tri_state [of "read_fails (- 541478725)" "- 11" example_media example_arrays]
      ReadPacket_tri_state [of filter_ref_fails "- 11" example_media example_arrays
        None False "StatusError (- 12) ''couldn't reference the packet''"] err
    by (simp add: read_fails_def filter_ref_fails_def)
qed


section \<open>Stream discovery\<close>

lemma findStreams_loop_map:
  "findStreams_loop fd xs acc = acc @ map (classified fd) xs"
proof (induction xs arbitrary: acc)
  case Nil
  then show ?case by simp
next
  case (Cons x xs)
  show ?case
    by (cases "fd (codec_id (codecpar x))"; cases "codec_type (codecpar x)")
       (simp_all add: Cons.IH classified_def Let_def)
qed

lemma inner_new_VideoStream [simp]: "inner (new_VideoStream i p c) = i"
  by (simp add: new_VideoStream_def new_baseStream_def baseStream.extend_def)

lemma inner_new_AudioStream [simp]: "inner (new_AudioStream i p c) = i"
  by (simp add: new_AudioStream_def new_baseStream_def baseStream.extend_def)

lemma inner_new_baseStream [simp]: "inner (new_baseStream i p c) = i"
  by (simp add: new_baseStream_def)

lemma classified_inner: "Stream_innerStream (classified fd st) = st"
  by (simp add: classified_def split: option.splits)

lemma classified_kind:
  "(fd (codec_id (codecpar st)) = None \<longrightarrow> is_Unknown (classified fd st))
   \<and> (fd (codec_id (codecpar st)) \<noteq> None \<and> codec_type (codecpar st) = AVMEDIA_TYPE_VIDEO
        \<longrightarrow> is_Video (classified fd st))
   \<and> (fd (codec_id (codecpar st)) \<noteq> None \<and> codec_type (codecpar st) = AVMEDIA_TYPE_AUDIO
        \<longrightarrow> is_Audio (classified fd st))
   \<and> (fd (codec_id (codecpar st)) \<noteq> None \<and> codec_type (codecpar st) \<noteq> AVMEDIA_TYPE_VIDEO
        \<and> codec_type (codecpar st) \<noteq> AVMEDIA_TYPE_AUDIO
        \<longrightarrow> is_Unknown (classified fd st))"
  by (auto simp: classified_def split: option.splits)



lemma entry_classified_classified: "entry_classified fd st (Some (classified fd st))"
  unfolding entry_classified_def option.case
  using classified_inner [of fd st] classified_kind [of fd st] by simp

lemma findStreams_result:
  assumes "0 \<le> sint (avformat_find_stream_info nv)"
  shows "Media_findStreams nv m h =
           (None, m\<lparr>streams := length h\<rparr>,
            h @ [map (\<lambda>st. Some (classified (avcodec_find_decoder nv) st)) (ctx_streams nv)])"
  using assms by (simp add: Media_findStreams_def Let_def findStreams_loop_map)

text \<open>
  Claim C8. When the probe of the container succeeds, \<open>findStreams\<close> returns no error
  and stores a stream list with one entry per native sub-stream, in the order of the
  sub-streams: entry \<open>i\<close> wraps native sub-stream \<open>i\<close>, and it is an \<open>Unknown\<close>
  stream when no decoder exists for the codec id, a \<open>Video\<close> or \<open>Audio\<close> stream by
  codec type otherwise, and an \<open>Unknown\<close> stream for every other codec type.
\<close>

theorem findStreams_classifies_in_order:
  assumes ok: "0 \<le> sint (avformat_find_stream_info nv)"
    and res: "Media_findStreams nv m h = (err, m', h')"
  shows "err = None
    \<and> length (h' ! streams m') = length (ctx_streams nv)
    \<and> (\<forall>i < length (ctx_streams nv).
          entry_classified (avcodec_find_decoder nv) (ctx_streams nv ! i) ((h' ! streams m') ! i))"
proof -
  let ?fd = "avcodec_find_decoder nv"
  from res have e: "err = None" and m': "m' = m\<lparr>streams := length h\<rparr>"
    and h': "h' = h @ [map (\<lambda>st. Some (classified ?fd st)) (ctx_streams nv)]"
    unfolding findStreams_result [OF ok] by simp_all
  have arr: "h' ! streams m' = map (\<lambda>st. Some (classified ?fd st)) (ctx_streams nv)"
    by (simp add: m' h')
  show ?thesis
    unfolding arr using e by (simp add: entry_classified_classified)
qed


theorem findStreams_classifies_in_order_witness:
  "0 \<le> sint (avformat_find_stream_info four_streams)
   \<and> fst (Media_findStreams four_streams example_media []) = None
   \<and> length (snd (snd (Media_findStreams four_streams example_media []))
         ! streams (fst (snd (Media_findStreams four_streams example_media [])))) = 4
   \<and> (0 :: nat) < length (ctx_streams four_streams)
   \<and> entry_classified (avcodec_find_decoder four_streams) (ctx_streams four_streams ! 0)
        (snd (snd (Media_findStreams four_streams example_media []))
           ! streams (fst (snd (Media_findStreams four_streams example_media []))) ! 0)
   \<and> avcodec_find_decoder four_streams
        (codec_id (codecpar (ctx_streams four_streams ! 0))) \<noteq> None
   \<and> codec_type (codecpar (ctx_streams four_streams ! 0)) = AVMEDIA_TYPE_VIDEO
   \<and> (3 :: nat) < length (ctx_streams four_streams)
   \<and> entry_classified (avcodec_find_decoder four_streams) (ctx_streams four_streams ! 3)
        (snd (snd (Media_findStreams four_streams example_media []))
           ! streams (fst (snd (Media_findStreams four_streams example_media []))) ! 3)
   \<and> avcodec_find_decoder four_streams
        (codec_id (codecpar (ctx_streams four_streams ! 3))) = None"
proof -
  have ok: "0 \<le> sint (avformat_find_stream_info four_streams)"
    by (simp add: four_streams_def)
  have len: "length (ctx_streams four_streams) = 4"
    by (simp add: four_streams_def)
  have facts: "avcodec_find_decoder four_streams
        (codec_id (codecpar (ctx_streams four_streams ! 0))) \<noteq> None"
    "codec_type (codecpar (ctx_streams four_streams ! 0)) = AVMEDIA_TYPE_VIDEO"
    "avcodec_find_decoder four_streams
        (codec_id (codecpar (ctx_streams four_streams ! 3))) = None"
    by (simp_all add: four_streams_def example_stream_def)
  note inst = findStreams_classifies_in_order [OF ok,
      of example_media "[]" "fst (Media_findStreams four_streams example_media [])"
        "fst (snd (Media_findStreams four_streams example_media []))"
        "snd (snd (Media_findStreams four_streams example_media []))"]
  from inst have all: "fst (Media_findStreams four_streams example_media []) = None
    \<and> length (snd (snd (Media_findStreams four_streams example_media []))
         ! streams (fst (snd (Media_findStreams four_streams example_media [])))) = 4
    \<and> (\<forall>i < 4.
          entry_classified (avcodec_find_decoder four_streams) (ctx_streams four_streams ! i)
            (snd (snd (Media_findStreams four_streams example_media []))
               ! streams (fst (snd (Media_findStreams four_streams example_media []))) ! i))"
    by (simp add: len)
  then show ?thesis using ok len facts by simp
qed


section \<open>The stream list\<close>

lemma Media_Streams_unfold:
  assumes "streams m < length h"
  shows "Media_Streams m h = (length h, h @ [h ! streams m])"
  using assms
  by (simp add: Media_Streams_def go_make_def go_copy_def nth_append)

text \<open>
  Claim C10. \<open>Streams\<close> returns a slice at a new address whose contents equal the
  media's stream list; the media's own array is unchanged by the call and by any write
  through the returned slice; a second call returns a slice at yet another address, with
  the same contents, and leaves the first copy and the media's array as they were.
\<close>

theorem Streams_returns_fresh_copy:
  assumes valid: "streams m < length h"
    and first: "Media_Streams m h = (a, h1)"
    and second: "Media_Streams m h1 = (b, h2)"
  shows "a \<noteq> streams m
    \<and> h1 ! a = h ! streams m
    \<and> h1 ! streams m = h ! streams m
    \<and> (h1[a := (h1 ! a)[i := v]]) ! streams m = h ! streams m
    \<and> b \<noteq> a \<and> b \<noteq> streams m
    \<and> h2 ! b = h2 ! a
    \<and> h2 ! a = h ! streams m
    \<and> h2 ! streams m = h ! streams m"
proof -
  from first have a: "a = length h" and h1: "h1 = h @ [h ! streams m]"
    unfolding Media_Streams_unfold [OF valid] by simp_all
  have valid1: "streams m < length h1"
    using valid by (simp add: h1)
  have same1: "h1 ! streams m = h ! streams m"
    using valid by (simp add: h1 nth_append)
  from second have b: "b = length h1" and h2: "h2 = h1 @ [h1 ! streams m]"
    unfolding Media_Streams_unfold [OF valid1] by simp_all
  have "a \<noteq> streams m" using valid a by simp
  moreover have "h1 ! a = h ! streams m" by (simp add: a h1)
  moreover have "(h1[a := (h1 ! a)[i := v]]) ! streams m = h ! streams m"
    using valid a same1 by simp
  moreover have "b \<noteq> a" "b \<noteq> streams m" using valid by (simp_all add: a b h1)
  moreover have "h2 ! a = h ! streams m" by (simp add: h2 h1 a nth_append)
  moreover have "h2 ! b = h ! streams m" using same1 by (simp add: h2 b)
  moreover have "h2 ! streams m = h ! streams m"
    using valid1 same1 by (simp add: h2 nth_append)
  ultimately show ?thesis using same1 by simp
qed

theorem Streams_returns_fresh_copy_witness:
  "streams example_media < length example_arrays
   \<and> Media_Streams example_media example_arrays
       = (1, example_arrays @ [example_arrays ! 0])
   \<and> Media_Streams example_media (example_arrays @ [example_arrays ! 0])
       = (2, example_arrays @ [example_arrays ! 0, example_arrays ! 0])
   \<and> ((example_arrays @ [example_arrays ! 0])
         [1 := ((example_arrays @ [example_arrays ! 0]) ! 1)[0 := None]]) ! 0
       = example_arrays ! 0
   \<and> (1::nat) \<noteq> streams example_media \<and> (2::nat) \<noteq> 1"
proof -
  have valid: "streams example_media < length example_arrays"
    by (simp add: example_media_def example_arrays_def)
  have first: "Media_Streams example_media example_arrays
       = (1, example_arrays @ [example_arrays ! 0])"
    by (simp add: Media_Streams_def go_make_def go_copy_def example_media_def
        example_arrays_def)
  have second: "Media_Streams example_media (example_arrays @ [example_arrays ! 0])
       = (2, example_arrays @ [example_arrays ! 0, example_arrays ! 0])"
    by (simp add: Media_Streams_def go_make_def go_copy_def example_media_def
        example_arrays_def)
  show ?thesis
    using Streams_returns_fresh_copy [OF valid first second, of 0 None] valid first second
    by (simp add: example_media_def)
qed


section \<open>Frames own their bytes\<close>

text \<open>Evaluation of the example reads.\<close>

lemma upt4: "[0..<4] = [0, 1, 2, Suc 2]"
  by (simp add: upt_rec)

lemma upt8: "[0..<8] = [0, 1, 2, 3, 4, 5, 6, Suc 6]"
  by (simp add: upt_rec)

lemmas read_video_defs =
  VideoStream_ReadVideoFrame_def baseStream_read_def picture_def opened_video_def
  GoBytes_def newVideoFrame_def image_NewRGBA_def image_Rect_def mul3NonNeg_def go_make_def
  go_copy_def Let_def upt4 numeral_eq_Suc

lemmas read_audio_defs =
  AudioStream_ReadAudioFrame_def baseStream_read_def samples_def opened_audio_def
  GoBytes_def newAudioFrame_def acquire_def release_def Let_def upt4 upt8
  example_audio_def new_AudioStream_def new_baseStream_def baseStream.extend_def
  AudioStream.fields_def

lemma first_video_read:
  "VideoStream_ReadVideoFrame (- 11) (picture 7) (Some 3) opened_video []
     = Some ((Some first_picture, True, None), opened_video\<lparr>skip := False\<rparr>,
             [[7, 7, 7, 7], [7, 7, 7, 7]])"
  by (simp add: read_video_defs first_picture_def)

lemma second_video_read:
  "VideoStream_ReadVideoFrame (- 11) (picture 9) (Some 3) (opened_video\<lparr>skip := False\<rparr>)
       [[7, 7, 7, 7], [7, 7, 7, 7]]
     = Some ((Some (first_picture\<lparr>img := (img first_picture)\<lparr>Pix := 3\<rparr>\<rparr>), True, None),
             opened_video\<lparr>skip := False\<rparr>,
             [[7, 7, 7, 7], [7, 7, 7, 7], [9, 9, 9, 9], [9, 9, 9, 9]])"
  by (simp add: read_video_defs first_picture_def)

lemma first_audio_read:
  "AudioStream_ReadAudioFrame (- 11) (samples 4 (Some 20) 7) (Some 3) opened_audio {} []
     = Some ((Some first_samples, True, None),
        opened_audio\<lparr>skip := False, buffer := Some 20, bufferSize := 4\<rparr>, {20},
        [[7, 7, 7, 7]])"
  by (simp add: read_audio_defs first_samples_def)

lemma second_audio_read:
  "AudioStream_ReadAudioFrame (- 11) (samples 8 (Some 21) 9) (Some 3)
       (opened_audio\<lparr>skip := False, buffer := Some 20, bufferSize := 4\<rparr>) {20} [[7, 7, 7, 7]]
     = Some ((Some \<lparr>stream = Audio (opened_audio\<lparr>skip := False, buffer := Some 21, bufferSize := 8\<rparr>),
               pts = 50, indexCoded = 0, indexDisplay = 0, data = 1\<rparr>, True, None),
        opened_audio\<lparr>skip := False, buffer := Some 21, bufferSize := 8\<rparr>, {21},
        [[7, 7, 7, 7], [9, 9, 9, 9, 9, 9, 9, 9]])"
  by (simp add: read_audio_defs)

text \<open>
  A read only adds arrays to the store: every array that exists before the call is the same
  after it, and the byte slice of a returned frame is one of the new arrays.
\<close>

lemma GoBytes_grows:
  "GoBytes mem n h = (a, h1) \<Longrightarrow> a = length h \<and> h1 = h @ [map mem [0..<n]]"
  by (auto simp: GoBytes_def)

lemma image_NewRGBA_grows:
  "image_NewRGBA r h = Some (im, h1) \<Longrightarrow>
     Pix im = length h \<and> (\<exists>zs. h1 = h @ [zs])"
  by (auto simp: image_NewRGBA_def go_make_def Let_def split: if_splits)

lemma newVideoFrame_grows:
  assumes "newVideoFrame strm p ic idx w ht pix h = Some (f, h2)"
  shows "Pix (img f) = length h \<and> length h2 = Suc (length h)
     \<and> (\<forall>a < length h. h2 ! a = h ! a)"
proof -
  from assms obtain im h1 where n: "image_NewRGBA (image_Rect 0 0 w ht) h = Some (im, h1)"
    and f: "f = \<lparr>stream = strm, pts = p, indexCoded = ic, indexDisplay = idx, img = im\<rparr>"
    and h2: "h2 = go_copy (Pix im) (h1 ! pix) h1"
    by (auto simp: newVideoFrame_def split: option.splits)
  from image_NewRGBA_grows [OF n] obtain zs where pix: "Pix im = length h" and h1: "h1 = h @ [zs]"
    by blast
  show ?thesis
    by (simp add: f h2 pix h1 go_copy_def nth_append)
qed

lemma ReadVideoFrame_store:
  assumes "VideoStream_ReadVideoFrame EA nv mp s h = Some ((fo, avail, err), s', h')"
  shows "length h \<le> length h' \<and> (\<forall>a < length h. h' ! a = h ! a)
     \<and> (\<forall>f. fo = Some f \<longrightarrow> length h \<le> Pix (img f) \<and> Pix (img f) < length h')"
proof (cases "fo")
  case None
  with assms have "h' = h"
    by (auto simp: VideoStream_ReadVideoFrame_def GoBytes_def
        split: prod.splits if_splits option.splits)
  then show ?thesis using None by simp
next
  case (Some f)
  with assms obtain s1 where
    nf: "newVideoFrame (Video s1) (frame_pts nv)
           (scast (frame_coded_picture_number nv)) (scast (frame_display_picture_number nv))
           (sint (ctx_width nv)) (sint (ctx_height nv)) (length h)
           (h @ [map (rgba_data nv) [0..<nat (sint (bufSize s1))]]) = Some (f, h')"
    by (auto simp: VideoStream_ReadVideoFrame_def GoBytes_def
        split: prod.splits if_splits option.splits)
  from newVideoFrame_grows [OF nf] show ?thesis
    using Some by (auto simp: nth_append)
qed

lemma ReadAudioFrame_store:
  assumes "AudioStream_ReadAudioFrame EA nv mp s live h = Some ((fo, avail, err), s', live', h')"
  shows "length h \<le> length h' \<and> (\<forall>a < length h. h' ! a = h ! a)
     \<and> (\<forall>f. fo = Some f \<longrightarrow> length h \<le> data f \<and> data f < length h')"
  using assms
  by (auto simp: AudioStream_ReadAudioFrame_def GoBytes_def newAudioFrame_def Let_def nth_append
      split: prod.splits if_splits)


text \<open>
  Claim C7. The byte slice of a frame returned by \<open>ReadVideoFrame\<close> or
  \<open>ReadAudioFrame\<close> is a Go array made during that call (\<open>C.GoBytes\<close> copies the
  native scratch buffer, \<open>newVideoFrame\<close> copies once more into a new image), and a later
  read of the same kind, from any state of the stream and so also after a reallocation of
  its buffer, leaves the bytes of \<open>Data()\<close> as they were.
\<close>

theorem frames_own_their_bytes:
  "(VideoStream_ReadVideoFrame EA nv1 mp1 vs0 h0 = Some ((Some vf, avail1, err1), vs1, h1)
      \<and> VideoStream_ReadVideoFrame EA nv2 mp2 vs h1 = Some (r2, vs2, h2)
     \<longrightarrow> length h0 \<le> Pix (img vf) \<and> VideoFrame_Data vf h2 = VideoFrame_Data vf h1)
   \<and> (AudioStream_ReadAudioFrame EA anv1 amp1 as0 live0 ah0
          = Some ((Some af, aavail1, aerr1), as1, live1, ah1)
      \<and> AudioStream_ReadAudioFrame EA anv2 amp2 as live ah1 = Some (ar2, as2, live2, ah2)
     \<longrightarrow> length ah0 \<le> data af \<and> AudioFrame_Data af ah2 = AudioFrame_Data af ah1)"
proof (intro conjI impI)
  assume a: "VideoStream_ReadVideoFrame EA nv1 mp1 vs0 h0 = Some ((Some vf, avail1, err1), vs1, h1)
      \<and> VideoStream_ReadVideoFrame EA nv2 mp2 vs h1 = Some (r2, vs2, h2)"
  obtain fo2 av2 e2 where r2: "r2 = (fo2, av2, e2)" by (cases r2) auto
  from a ReadVideoFrame_store [of EA nv1 mp1 vs0 h0 "Some vf" avail1 err1 vs1 h1]
  have fresh: "length h0 \<le> Pix (img vf)" "Pix (img vf) < length h1" by auto
  from a ReadVideoFrame_store [of EA nv2 mp2 vs h1 fo2 av2 e2 vs2 h2] r2
  have "\<forall>a < length h1. h2 ! a = h1 ! a" by auto
  with fresh show "length h0 \<le> Pix (img vf)" "VideoFrame_Data vf h2 = VideoFrame_Data vf h1"
    by (simp_all add: VideoFrame_Data_def)
next
  assume a: "AudioStream_ReadAudioFrame EA anv1 amp1 as0 live0 ah0
          = Some ((Some af, aavail1, aerr1), as1, live1, ah1)
      \<and> AudioStream_ReadAudioFrame EA anv2 amp2 as live ah1 = Some (ar2, as2, live2, ah2)"
  obtain fo2 av2 e2 where r2: "ar2 = (fo2, av2, e2)" by (cases ar2) auto
  from a ReadAudioFrame_store [of EA anv1 amp1 as0 live0 ah0 "Some af" aavail1 aerr1 as1 live1 ah1]
  have fresh: "length ah0 \<le> data af" "data af < length ah1" by auto
  from a ReadAudioFrame_store [of EA anv2 amp2 as live ah1 fo2 av2 e2 as2 live2 ah2] r2
  have "\<forall>a < length ah1. ah2 ! a = ah1 ! a" by auto
  with fresh show "length ah0 \<le> data af" "AudioFrame_Data af ah2 = AudioFrame_Data af ah1"
    by (simp_all add: AudioFrame_Data_def)
qed

theorem frames_own_their_bytes_witness:
  "VideoStream_ReadVideoFrame (- 11) (picture 7) (Some 3) opened_video []
     = Some ((Some first_picture, True, None), opened_video\<lparr>skip := False\<rparr>,
             [[7, 7, 7, 7], [7, 7, 7, 7]])
   \<and> VideoStream_ReadVideoFrame (- 11) (picture 9) (Some 3) (opened_video\<lparr>skip := False\<rparr>)
       [[7, 7, 7, 7], [7, 7, 7, 7]]
     = Some ((Some (first_picture\<lparr>img := (img first_picture)\<lparr>Pix := 3\<rparr>\<rparr>), True, None),
             opened_video\<lparr>skip := False\<rparr>,
             [[7, 7, 7, 7], [7, 7, 7, 7], [9, 9, 9, 9], [9, 9, 9, 9]])
   \<and> VideoFrame_Data first_picture [[7, 7, 7, 7], [7, 7, 7, 7], [9, 9, 9, 9], [9, 9, 9, 9]]
       = VideoFrame_Data first_picture [[7, 7, 7, 7], [7, 7, 7, 7]]
   \<and> AudioStream_ReadAudioFrame (- 11) (samples 4 (Some 20) 7) (Some 3) opened_audio {} []
     = Some ((Some first_samples, True, None),
        opened_audio\<lparr>skip := False, buffer := Some 20, bufferSize := 4\<rparr>, {20},
        [[7, 7, 7, 7]])
   \<and> AudioStream_ReadAudioFrame (- 11) (samples 8 (Some 21) 9) (Some 3)
       (opened_audio\<lparr>skip := False, buffer := Some 20, bufferSize := 4\<rparr>) {20} [[7, 7, 7, 7]]
     = Some ((Some \<lparr>stream = Audio (opened_audio\<lparr>skip := False, buffer := Some 21, bufferSize := 8\<rparr>),
               pts = 50, indexCoded = 0, indexDisplay = 0, data = 1\<rparr>, True, None),
        opened_audio\<lparr>skip := False, buffer := Some 21, bufferSize := 8\<rparr>, {21},
        [[7, 7, 7, 7], [9, 9, 9, 9, 9, 9, 9, 9]])
   \<and> AudioFrame_Data first_samples [[7, 7, 7, 7], [9, 9, 9, 9, 9, 9, 9, 9]]
       = AudioFrame_Data first_samples [[7, 7, 7, 7]]"
  using frames_own_their_bytes [where EA = "- 11" and ?nv1.0 = "picture 7" and ?mp1.0 = "Some 3"
      and ?vs0.0 = opened_video and ?h0.0 = "[]" and vf = first_picture and ?avail1.0 = True
      and ?err1.0 = None and ?vs1.0 = "opened_video\<lparr>skip := False\<rparr>"
      and ?h1.0 = "[[7, 7, 7, 7], [7, 7, 7, 7]]"
      and ?nv2.0 = "picture 9" and ?mp2.0 = "Some 3" and vs = "opened_video\<lparr>skip := False\<rparr>"
      and ?r2.0 = "(Some (first_picture\<lparr>img := (img first_picture)\<lparr>Pix := 3\<rparr>\<rparr>), True, None)"
      and ?vs2.0 = "opened_video\<lparr>skip := False\<rparr>"
      and ?h2.0 = "[[7, 7, 7, 7], [7, 7, 7, 7], [9, 9, 9, 9], [9, 9, 9, 9]]"
      and ?anv1.0 = "samples 4 (Some 20) 7" and ?amp1.0 = "Some 3" and ?as0.0 = opened_audio
      and ?live0.0 = "{}" and ?ah0.0 = "[]" and af = first_samples and ?aavail1.0 = True
      and ?aerr1.0 = None
      and ?as1.0 = "opened_audio\<lparr>skip := False, buffer := Some 20, bufferSize := 4\<rparr>"
      and ?live1.0 = "{20}" and ?ah1.0 = "[[7, 7, 7, 7]]"
      and ?anv2.0 = "samples 8 (Some 21) 9" and ?amp2.0 = "Some 3"
      and as = "opened_audio\<lparr>skip := False, buffer := Some 20, bufferSize := 4\<rparr>"
      and live = "{20}"
      and ?ar2.0 = "(Some \<lparr>stream = Audio (opened_audio\<lparr>skip := False, buffer := Some 21, bufferSize := 8\<rparr>),
               pts = 50, indexCoded = 0, indexDisplay = 0, data = 1\<rparr>, True, None)"
      and ?as2.0 = "opened_audio\<lparr>skip := False, buffer := Some 21, bufferSize := 8\<rparr>"
      and ?live2.0 = "{21}" and ?ah2.0 = "[[7, 7, 7, 7], [9, 9, 9, 9, 9, 9, 9, 9]]"]
    first_video_read second_video_read first_audio_read second_audio_read
  by simp


section \<open>The audio output buffer\<close>

lemma ReadAudioFrame_held_size_mono:
  assumes "buffer_av_malloc nv \<noteq> None"
    and "AudioStream_ReadAudioFrame EA nv mp s live h = Some (r, s', live', h')"
  shows "held_size s \<le> held_size s'"
  using assms
  by (auto simp: AudioStream_ReadAudioFrame_def baseStream_read_def held_size_def Let_def
      split: if_splits option.splits prod.splits)

lemma ReadAudioFrames_sorted:
  "allocations_succeed calls \<Longrightarrow>
     sorted (map held_size (s # ReadAudioFrames EA calls s live h))"
proof (induction calls arbitrary: s live h)
  case Nil
  then show ?case by simp
next
  case (Cons call calls)
  show ?case
  proof (cases "AudioStream_ReadAudioFrame EA (fst call) (snd call) s live h")
    case None
    then show ?thesis by simp
  next
    case (Some res)
    obtain r s1 live1 h1 where res: "res = (r, s1, live1, h1)"
      by (metis prod_cases4)
    from Some res have
      step: "AudioStream_ReadAudioFrame EA (fst call) (snd call) s live h
               = Some (r, s1, live1, h1)"
      by simp
    from Cons.prems have m: "buffer_av_malloc (fst call) \<noteq> None"
      and rest: "allocations_succeed calls"
      by (simp_all add: allocations_succeed_def)
    have le: "held_size s \<le> held_size s1"
      by (rule ReadAudioFrame_held_size_mono [OF m step])
    have "sorted (map held_size (s1 # ReadAudioFrames EA calls s1 live1 h1))"
      by (rule Cons.IH [OF rest])
    with le show ?thesis
      by (auto simp: step)
  qed
qed

lemma ReadAudioFrame_reuses:
  assumes "AudioStream_ReadAudioFrame EA nv mp s live h = Some (r, s', live', h')"
    and "buffer s = Some p"
    and "\<not> sint (bufferSize s) < sint (av_samples_get_buffer_size nv)"
  shows "buffer s' = Some p \<and> bufferSize s' = bufferSize s \<and> live' = live"
  using assms
  by (auto simp: AudioStream_ReadAudioFrame_def baseStream_read_def Let_def
      split: if_splits prod.splits)

lemma ReadAudioFrame_reallocates:
  assumes "AudioStream_ReadAudioFrame EA nv mp s live h = Some (r, s', live', h')"
    and "decodes_frame nv s mp"
    and "sint (bufferSize s) < sint (av_samples_get_buffer_size nv)"
  shows "buffer s' = buffer_av_malloc nv \<and> bufferSize s' = av_samples_get_buffer_size nv
     \<and> live' = acquire (buffer_av_malloc nv) (release (buffer s) live)"
  using assms
  by (auto simp: AudioStream_ReadAudioFrame_def baseStream_read_def decodes_frame_def Let_def
      split: if_splits prod.splits)

lemma third_audio_read:
  "AudioStream_ReadAudioFrame (- 11) (samples 4 (Some 22) 5) (Some 3)
       (opened_audio\<lparr>skip := False, buffer := Some 21, bufferSize := 8\<rparr>) {21}
       [[7, 7, 7, 7], [9, 9, 9, 9, 9, 9, 9, 9]]
     = Some ((Some \<lparr>stream = Audio (opened_audio\<lparr>skip := False, buffer := Some 21, bufferSize := 8\<rparr>),
               pts = 50, indexCoded = 0, indexDisplay = 0, data = 2\<rparr>, True, None),
        opened_audio\<lparr>skip := False, buffer := Some 21, bufferSize := 8\<rparr>, {21},
        [[7, 7, 7, 7], [9, 9, 9, 9, 9, 9, 9, 9], [5, 5, 5, 5]])"
  by (simp add: read_audio_defs)

lemma growing_calls_states:
  "ReadAudioFrames (- 11) growing_calls opened_audio {} [] =
     [opened_audio\<lparr>skip := False, buffer := Some 20, bufferSize := 4\<rparr>,
      opened_audio\<lparr>skip := False, buffer := Some 21, bufferSize := 8\<rparr>,
      opened_audio\<lparr>skip := False, buffer := Some 21, bufferSize := 8\<rparr>]"
  by (simp add: growing_calls_def first_audio_read second_audio_read third_audio_read)

lemma opened_audio_no_buffer: "buffer opened_audio = None"
  by (simp add: opened_audio_def example_audio_def new_AudioStream_def new_baseStream_def
      baseStream.extend_def AudioStream.fields_def)

text \<open>
  Claim C5 as stated fails: when a reallocation fails the stream is left without a buffer,
  and the next read allocates one of the size it needs, which may be smaller than the
  buffer held before. Here the sizes held after three reads are 8, none and 4, and the
  recorded sizes are 8, 16 and 4.
\<close>

theorem audio_buffer_shrinks_after_failed_allocation_counterexample:
  "map held_size (opened_audio # ReadAudioFrames (- 11) failing_calls opened_audio {} [])
     = [0, 8, 0, 4]
   \<and> map (\<lambda>s. sint (bufferSize s)) (ReadAudioFrames (- 11) failing_calls opened_audio {} [])
     = [8, 16, 4]
   \<and> \<not> sorted (map held_size (opened_audio # ReadAudioFrames (- 11) failing_calls opened_audio {} []))"
proof -
  have c1: "AudioStream_ReadAudioFrame (- 11) (samples 8 (Some 20) 7) (Some 3) opened_audio {} []
     = Some ((Some \<lparr>stream = Audio (opened_audio\<lparr>skip := False, buffer := Some 20, bufferSize := 8\<rparr>),
               pts = 50, indexCoded = 0, indexDisplay = 0, data = 0\<rparr>, True, None),
        opened_audio\<lparr>skip := False, buffer := Some 20, bufferSize := 8\<rparr>, {20},
        [[7, 7, 7, 7, 7, 7, 7, 7]])"
    by (simp add: read_audio_defs)
  have c2: "AudioStream_ReadAudioFrame (- 11) (samples 16 None 9) (Some 3)
       (opened_audio\<lparr>skip := False, buffer := Some 20, bufferSize := 8\<rparr>) {20}
       [[7, 7, 7, 7, 7, 7, 7, 7]]
     = Some ((None, False, Some (Error ''couldn't allocate an AV buffer'')),
        opened_audio\<lparr>skip := False, buffer := None, bufferSize := 16\<rparr>, {},
        [[7, 7, 7, 7, 7, 7, 7, 7]])"
    by (simp add: read_audio_defs)
  have c3: "AudioStream_ReadAudioFrame (- 11) (samples 4 (Some 21) 5) (Some 3)
       (opened_audio\<lparr>skip := False, buffer := None, bufferSize := 16\<rparr>) {}
       [[7, 7, 7, 7, 7, 7, 7, 7]]
     = Some ((Some \<lparr>stream = Audio (opened_audio\<lparr>skip := False, buffer := Some 21, bufferSize := 4\<rparr>),
               pts = 50, indexCoded = 0, indexDisplay = 0, data = 1\<rparr>, True, None),
        opened_audio\<lparr>skip := False, buffer := Some 21, bufferSize := 4\<rparr>, {21},
        [[7, 7, 7, 7, 7, 7, 7, 7], [5, 5, 5, 5]])"
    by (simp add: read_audio_defs)
  have states: "ReadAudioFrames (- 11) failing_calls opened_audio {} [] =
     [opened_audio\<lparr>skip := False, buffer := Some 20, bufferSize := 8\<rparr>,
      opened_audio\<lparr>skip := False, buffer := None, bufferSize := 16\<rparr>,
      opened_audio\<lparr>skip := False, buffer := Some 21, bufferSize := 4\<rparr>]"
    by (simp add: failing_calls_def c1 c2 c3)
  show ?thesis
    by (simp add: states held_size_def opened_audio_no_buffer)
qed


text \<open>
  Claim C5, as amended. In a run of successive \<open>ReadAudioFrame\<close> calls in which no
  allocation fails, the size of the output buffer never decreases. In every call, a buffer
  that is at least as large as required is kept as it is, with its recorded size, and
  nothing is freed or allocated; when a frame is decoded and the required size exceeds
  the recorded size, the old buffer is freed and a buffer of the required size is
  allocated.
\<close>

theorem audio_buffer_grows_on_demand:
  "(allocations_succeed calls
      \<longrightarrow> sorted (map held_size (s # ReadAudioFrames EA calls s live h)))
   \<and> (AudioStream_ReadAudioFrame EA nv mp s live h = Some (r, s', live', h')
        \<and> buffer s = Some p
        \<and> \<not> sint (bufferSize s) < sint (av_samples_get_buffer_size nv)
      \<longrightarrow> buffer s' = Some p \<and> bufferSize s' = bufferSize s \<and> live' = live)
   \<and> (AudioStream_ReadAudioFrame EA nv mp s live h = Some (r, s', live', h')
        \<and> decodes_frame nv s mp
        \<and> sint (bufferSize s) < sint (av_samples_get_buffer_size nv)
      \<longrightarrow> buffer s' = buffer_av_malloc nv
          \<and> bufferSize s' = av_samples_get_buffer_size nv
          \<and> live' = acquire (buffer_av_malloc nv) (release (buffer s) live))"
  using ReadAudioFrames_sorted [of calls s EA live h]
    ReadAudioFrame_reuses [of EA nv mp s live h r s' live' h' p]
    ReadAudioFrame_reallocates [of EA nv mp s live h r s' live' h']
  by blast


theorem audio_buffer_grows_on_demand_witness:
  "allocations_succeed growing_calls
   \<and> map held_size (opened_audio # ReadAudioFrames (- 11) growing_calls opened_audio {} [])
       = [0, 4, 8, 8]
   \<and> sorted (map held_size (opened_audio # ReadAudioFrames (- 11) growing_calls opened_audio {} []))
   \<and> buffer (opened_audio\<lparr>skip := False, buffer := Some 21, bufferSize := 8\<rparr>) = Some 21
   \<and> \<not> sint (bufferSize (opened_audio\<lparr>skip := False, buffer := Some 21, bufferSize := 8\<rparr>))
         < sint (av_samples_get_buffer_size (samples 4 (Some 22) 5))
   \<and> (buffer (opened_audio\<lparr>skip := False, buffer := Some 21, bufferSize := 8\<rparr>) = Some 21
        \<and> bufferSize (opened_audio\<lparr>skip := False, buffer := Some 21, bufferSize := 8\<rparr>)
            = bufferSize (opened_audio\<lparr>skip := False, buffer := Some 21, bufferSize := 8\<rparr>)
        \<and> {21 :: nat} = {21})
   \<and> decodes_frame (samples 8 (Some 21) 9)
        (opened_audio\<lparr>skip := False, buffer := Some 20, bufferSize := 4\<rparr>) (Some 3)
   \<and> sint (bufferSize (opened_audio\<lparr>skip := False, buffer := Some 20, bufferSize := 4\<rparr>))
         < sint (av_samples_get_buffer_size (samples 8 (Some 21) 9))
   \<and> (buffer (opened_audio\<lparr>skip := False, buffer := Some 21, bufferSize := 8\<rparr>)
          = buffer_av_malloc (samples 8 (Some 21) 9)
        \<and> bufferSize (opened_audio\<lparr>skip := False, buffer := Some 21, bufferSize := 8\<rparr>)
          = av_samples_get_buffer_size (samples 8 (Some 21) 9)
        \<and> {21} = acquire (buffer_av_malloc (samples 8 (Some 21) 9))
             (release (buffer (opened_audio\<lparr>skip := False, buffer := Some 20, bufferSize := 4\<rparr>))
                {20}))"
proof -
  have ok: "allocations_succeed growing_calls"
    by (simp add: allocations_succeed_def growing_calls_def samples_def)
  have sizes: "map held_size (opened_audio # ReadAudioFrames (- 11) growing_calls opened_audio {} [])
       = [0, 4, 8, 8]"
    by (simp add: growing_calls_states held_size_def opened_audio_no_buffer)
  have srt: "sorted (map held_size
      (opened_audio # ReadAudioFrames (- 11) growing_calls opened_audio {} []))"
    by (rule audio_buffer_grows_on_demand [THEN conjunct1, THEN mp, OF ok])
  have b: "buffer (opened_audio\<lparr>skip := False, buffer := Some 21, bufferSize := 8\<rparr>) = Some 21"
    by simp
  have nlt: "\<not> sint (bufferSize (opened_audio\<lparr>skip := False, buffer := Some 21, bufferSize := 8\<rparr>))
         < sint (av_samples_get_buffer_size (samples 4 (Some 22) 5))"
    by (simp add: samples_def)
  have reuse: "buffer (opened_audio\<lparr>skip := False, buffer := Some 21, bufferSize := 8\<rparr>) = Some 21
        \<and> bufferSize (opened_audio\<lparr>skip := False, buffer := Some 21, bufferSize := 8\<rparr>)
            = bufferSize (opened_audio\<lparr>skip := False, buffer := Some 21, bufferSize := 8\<rparr>)
        \<and> {21 :: nat} = {21}"
    by (rule audio_buffer_grows_on_demand [THEN conjunct2, THEN conjunct1, THEN mp,
          OF conjI [OF third_audio_read conjI [OF b nlt]]])
  have dec: "decodes_frame (samples 8 (Some 21) 9)
        (opened_audio\<lparr>skip := False, buffer := Some 20, bufferSize := 4\<rparr>) (Some 3)"
    by (simp add: decodes_frame_def samples_def)
  have lt: "sint (bufferSize (opened_audio\<lparr>skip := False, buffer := Some 20, bufferSize := 4\<rparr>))
         < sint (av_samples_get_buffer_size (samples 8 (Some 21) 9))"
    by (simp add: samples_def)
  have realloc: "buffer (opened_audio\<lparr>skip := False, buffer := Some 21, bufferSize := 8\<rparr>)
          = buffer_av_malloc (samples 8 (Some 21) 9)
        \<and> bufferSize (opened_audio\<lparr>skip := False, buffer := Some 21, bufferSize := 8\<rparr>)
          = av_samples_get_buffer_size (samples 8 (Some 21) 9)
        \<and> {21} = acquire (buffer_av_malloc (samples 8 (Some 21) 9))
             (release (buffer (opened_audio\<lparr>skip := False, buffer := Some 20, bufferSize := 4\<rparr>))
                {20})"
    by (rule audio_buffer_grows_on_demand [THEN conjunct2, THEN conjunct2, THEN mp,
          OF conjI [OF second_audio_read conjI [OF dec lt]]])
  show ?thesis
    by (intro conjI ok sizes srt b nlt reuse dec lt realloc)
qed


end
